theory Spec2Isabelle
  imports Main
begin

section \<open>JavaScript values\<close>

text \<open>
  The values that flow through the Live client (\<^verbatim>\<open>live.ts\<close>) are plain JavaScript
  values: request parameters, wire messages and configuration objects. An object is the
  list of its own enumerable properties in insertion order; a function is opaque and is
  known by a name only. Numbers are restricted to integers.
\<close>

datatype jsval =
    JUndefined
  | JNull
  | JBool bool
  | JNum int
  | JStr string
  | JArr "jsval list"
  | JObj "(string \<times> jsval) list"
  | JFun string

type_synonym jsobj = "(string \<times> jsval) list"

text \<open>Thrown values: \<^verbatim>\<open>new Error(msg)\<close>, and the runtime's \<^verbatim>\<open>TypeError\<close>, whose
  message is the engine's own and is left out.\<close>

datatype error = Error string | TypeError

text \<open>The \<^verbatim>\<open>typeof\<close> operator.\<close>

fun typeof :: "jsval \<Rightarrow> string" where
  "typeof JUndefined = ''undefined''"
| "typeof JNull = ''object''"
| "typeof (JBool b) = ''boolean''"
| "typeof (JNum n) = ''number''"
| "typeof (JStr s) = ''string''"
| "typeof (JArr xs) = ''object''"
| "typeof (JObj ps) = ''object''"
| "typeof (JFun f) = ''function''"

text \<open>\<^verbatim>\<open>v == null\<close>: true of \<^verbatim>\<open>null\<close> and \<^verbatim>\<open>undefined\<close> only.\<close>

fun nullish :: "jsval \<Rightarrow> bool" where
  "nullish JUndefined = True"
| "nullish JNull = True"
| "nullish v = False"

text \<open>Conversion to boolean, as in \<^verbatim>\<open>if (v)\<close> and \<^verbatim>\<open>a && b\<close>.\<close>

fun truthy :: "jsval \<Rightarrow> bool" where
  "truthy JUndefined = False"
| "truthy JNull = False"
| "truthy (JBool b) = b"
| "truthy (JNum n) = (n \<noteq> 0)"
| "truthy (JStr s) = (s \<noteq> [])"
| "truthy v = True"

text \<open>Property read \<^verbatim>\<open>o.k\<close> (\<^verbatim>\<open>undefined\<close> when absent), the test \<^verbatim>\<open>k in o\<close>,
  assignment \<^verbatim>\<open>o.k = v\<close> (an existing key keeps its place, a new key goes last) and
  \<^verbatim>\<open>delete o[k]\<close>.\<close>

fun obj_get :: "jsobj \<Rightarrow> string \<Rightarrow> jsval" where
  "obj_get [] k = JUndefined"
| "obj_get ((k', v) # ps) k = (if k' = k then v else obj_get ps k)"

fun obj_has :: "jsobj \<Rightarrow> string \<Rightarrow> bool" where
  "obj_has [] k = False"
| "obj_has ((k', v) # ps) k = (k' = k \<or> obj_has ps k)"

fun obj_set :: "(string \<times> 'a) list \<Rightarrow> string \<Rightarrow> 'a \<Rightarrow> (string \<times> 'a) list" where
  "obj_set [] k v = [(k, v)]"
| "obj_set ((k', v') # ps) k v = (if k' = k then (k, v) # ps else (k', v') # obj_set ps k v)"

fun obj_delete :: "jsobj \<Rightarrow> string \<Rightarrow> jsobj" where
  "obj_delete [] k = []"
| "obj_delete ((k', v) # ps) k = (if k' = k then obj_delete ps k else (k', v) # obj_delete ps k)"

text \<open>\<^verbatim>\<open>Object.assign(target, source)\<close>, which is also what the spread
  \<^verbatim>\<open>{...a, ...b}\<close> does to the properties of \<^verbatim>\<open>a\<close>.\<close>

fun object_assign :: "jsobj \<Rightarrow> jsobj \<Rightarrow> jsobj" where
  "object_assign target [] = target"
| "object_assign target ((k, v) # ps) = object_assign (obj_set target k v) ps"

text \<open>The operator \<^verbatim>\<open>k in v\<close> on a value whose \<^verbatim>\<open>typeof\<close> is \<^verbatim>\<open>'object'\<close> and
  which is not \<^verbatim>\<open>null\<close>, for the keys \<^verbatim>\<open>name\<close>, \<^verbatim>\<open>response\<close> and \<^verbatim>\<open>id\<close>
  that \<^verbatim>\<open>tLiveClienttToolResponse\<close> asks about: none of them is a property of an array.\<close>

fun has_property :: "string \<Rightarrow> jsval \<Rightarrow> bool" where
  "has_property k (JObj ps) = obj_has ps k"
| "has_property k v = False"

text \<open>\<^verbatim>\<open>String.prototype.startsWith\<close>.\<close>

definition startsWith :: "string \<Rightarrow> string \<Rightarrow> bool" where
  "startsWith s p = (take (length p) s = p)"

subsection \<open>JSON.stringify\<close>

definition hex_digit :: "nat \<Rightarrow> char" where
  "hex_digit n = (if n < 10 then char_of (48 + n) else char_of (87 + n))"

definition json_escape :: "char \<Rightarrow> string" where
  "json_escape c =
     (if c = CHR 0x22 then [CHR 0x5C, CHR 0x22]
      else if c = CHR 0x5C then [CHR 0x5C, CHR 0x5C]
      else if c = CHR 0x08 then [CHR 0x5C, CHR ''b'']
      else if c = CHR 0x0C then [CHR 0x5C, CHR ''f'']
      else if c = CHR 0x0A then [CHR 0x5C, CHR ''n'']
      else if c = CHR 0x0D then [CHR 0x5C, CHR ''r'']
      else if c = CHR 0x09 then [CHR 0x5C, CHR ''t'']
      else if (of_char c :: nat) < 32
        then [CHR 0x5C, CHR ''u'', CHR ''0'', CHR ''0'',
              hex_digit ((of_char c :: nat) div 16), hex_digit ((of_char c :: nat) mod 16)]
      else [c])"

definition json_quote :: "string \<Rightarrow> string" where
  "json_quote s = CHR 0x22 # concat (map json_escape s) @ [CHR 0x22]"

function decimal :: "nat \<Rightarrow> string" where
  "decimal n = (if n < 10 then [char_of (48 + n)] else decimal (n div 10) @ [char_of (48 + n mod 10)])"
  by pat_completeness auto
termination
  by (relation "measure id") auto

definition json_number :: "int \<Rightarrow> string" where
  "json_number i = (if i < 0 then CHR ''-'' # decimal (nat (- i)) else decimal (nat i))"

fun join_commas :: "string list \<Rightarrow> string" where
  "join_commas [] = []"
| "join_commas [s] = s"
| "join_commas (s # t # ss) = s @ CHR '','' # join_commas (t # ss)"

text \<open>
  \<^verbatim>\<open>JSON.stringify\<close> gives no text for \<^verbatim>\<open>undefined\<close> and for a function; an object
  drops the properties that have no text, an array writes \<^verbatim>\<open>null\<close> for them.
\<close>

fun JSON_stringify :: "jsval \<Rightarrow> string option"
  and stringify_elements :: "jsval list \<Rightarrow> string list"
  and stringify_properties :: "(string \<times> jsval) list \<Rightarrow> string list" where
  "JSON_stringify JUndefined = None"
| "JSON_stringify (JFun f) = None"
| "JSON_stringify JNull = Some ''null''"
| "JSON_stringify (JBool b) = Some (if b then ''true'' else ''false'')"
| "JSON_stringify (JNum i) = Some (json_number i)"
| "JSON_stringify (JStr s) = Some (json_quote s)"
| "JSON_stringify (JArr xs) = Some (CHR ''['' # join_commas (stringify_elements xs) @ '']'')"
| "JSON_stringify (JObj ps) = Some (CHR ''{'' # join_commas (stringify_properties ps) @ ''}'')"
| "stringify_elements [] = []"
| "stringify_elements (x # xs) =
     (case JSON_stringify x of None \<Rightarrow> ''null'' | Some s \<Rightarrow> s) # stringify_elements xs"
| "stringify_properties [] = []"
| "stringify_properties ((k, v) # ps) =
     (case JSON_stringify v of
        None \<Rightarrow> stringify_properties ps
      | Some s \<Rightarrow> (json_quote k @ CHR '':'' # s) # stringify_properties ps)"

text \<open>The text of an object, which always has one.\<close>

definition stringify_object :: "jsobj \<Rightarrow> string" where
  "stringify_object ps = CHR ''{'' # join_commas (stringify_properties ps) @ ''}''"

section \<open>Collaborators of the Live client\<close>

text \<open>
  \<^verbatim>\<open>ApiClient\<close> is read through its getters only; each getter is a field. A string
  getter that may return \<^verbatim>\<open>undefined\<close> is an option.
\<close>

record ApiClient =
  isVertexAI :: bool
  getApiKey :: "string option"
  getProject :: "string option"
  getLocation :: "string option"
  getWebsocketBaseUrl :: string
  getApiVersion :: string
  getDefaultHeaders :: "(string \<times> string) list"

text \<open>
  The connection made by the \<^verbatim>\<open>WebSocketFactory\<close>: what it was created with, and
  what happened on it since, oldest first: the calls of \<^verbatim>\<open>connect\<close>, \<^verbatim>\<open>send\<close> and
  \<^verbatim>\<open>close\<close> the client made, and the transport's signal that it is open.
\<close>

datatype ws_event = Connect | Opened | Send string | Close

record WebSocket =
  url :: string
  headers :: "(string \<times> string) list"
  events :: "ws_event list"

definition ws_connect :: "WebSocket \<Rightarrow> WebSocket" where
  "ws_connect ws = ws\<lparr>events := events ws @ [Connect]\<rparr>"

definition ws_opened :: "WebSocket \<Rightarrow> WebSocket" where
  "ws_opened ws = ws\<lparr>events := events ws @ [Opened]\<rparr>"

definition ws_send :: "WebSocket \<Rightarrow> string \<Rightarrow> WebSocket" where
  "ws_send ws frame = ws\<lparr>events := events ws @ [Send frame]\<rparr>"

definition ws_close :: "WebSocket \<Rightarrow> WebSocket" where
  "ws_close ws = ws\<lparr>events := events ws @ [Close]\<rparr>"

text \<open>The frames handed to \<^verbatim>\<open>send\<close>, in order.\<close>

fun sent_frames :: "ws_event list \<Rightarrow> string list" where
  "sent_frames [] = []"
| "sent_frames (Send frame # cs) = frame # sent_frames cs"
| "sent_frames (c # cs) = sent_frames cs"

text \<open>\<^verbatim>\<open>types.LiveCallbacks\<close>: the user's handlers are opaque and known by name.\<close>

record LiveCallbacks =
  onopen :: "string option"
  onmessage :: string
  onerror :: "string option"
  onclose :: "string option"

text \<open>\<^verbatim>\<open>types.LiveConnectParameters\<close>; \<^verbatim>\<open>config\<close> is absent or an object.\<close>

record LiveConnectParameters =
  model :: string
  config :: "jsobj option"
  callbacks :: "LiveCallbacks option"

text \<open>The read \<^verbatim>\<open>params.config?.k\<close>.\<close>

definition config_get :: "LiveConnectParameters \<Rightarrow> string \<Rightarrow> jsval" where
  "config_get params k = (case config params of None \<Rightarrow> JUndefined | Some c \<Rightarrow> obj_get c k)"

text \<open>
  The functions \<^verbatim>\<open>live.ts\<close> imports from the transformers, the converters, the MCP
  helper and the auth provider are parameters of the model. Each one that can throw (or
  reject) returns a sum. \<^verbatim>\<open>callableTool_tool\<close> is the outcome of awaiting
  \<^verbatim>\<open>tool()\<close> on a callable tool, \<^verbatim>\<open>transportOpens\<close> says whether the transport ever calls
  \<^verbatim>\<open>onopen\<close>.
\<close>

record Collaborators =
  tModel :: "ApiClient \<Rightarrow> string \<Rightarrow> error + string"
  tContents :: "jsval \<Rightarrow> error + jsval list"
  contentToVertex :: "jsval \<Rightarrow> error + jsval"
  contentToMldev :: "jsval \<Rightarrow> error + jsval"
  liveConnectParametersToVertex :: "ApiClient \<Rightarrow> LiveConnectParameters \<Rightarrow> error + jsobj"
  liveConnectParametersToMldev :: "ApiClient \<Rightarrow> LiveConnectParameters \<Rightarrow> error + jsobj"
  liveSendRealtimeInputParametersToVertex :: "jsval \<Rightarrow> error + jsval"
  liveSendRealtimeInputParametersToMldev :: "jsval \<Rightarrow> error + jsval"
  hasMcpToolUsage :: "jsval \<Rightarrow> bool"
  setMcpUsageHeader :: "(string \<times> string) list \<Rightarrow> (string \<times> string) list"
  addAuthHeaders :: "(string \<times> string) list \<Rightarrow> error + (string \<times> string) list"
  callableTool_tool :: "jsval \<Rightarrow> error + jsval"
  transportOpens :: bool

section \<open>Session\<close>

record Session =
  conn :: WebSocket
  apiClient :: ApiClient

definition FUNCTION_RESPONSE_REQUIRES_ID :: string where
  "FUNCTION_RESPONSE_REQUIRES_ID =
     ''FunctionResponse request must have an `id` field from the response of a ToolCall.FunctionalCalls in Google AI.''"

definition defaultLiveSendClientContentParamerters :: jsobj where
  "defaultLiveSendClientContentParamerters = [(''turnComplete'', JBool True)]"

text \<open>\<^verbatim>\<open>xs.map(f)\<close> with an \<^verbatim>\<open>f\<close> that may throw: the first throw ends the map.\<close>

fun map_throwing :: "('a \<Rightarrow> error + 'b) \<Rightarrow> 'a list \<Rightarrow> error + 'b list" where
  "map_throwing f [] = Inr []"
| "map_throwing f (x # xs) =
     (case f x of
        Inl e \<Rightarrow> Inl e
      | Inr y \<Rightarrow> (case map_throwing f xs of Inl e \<Rightarrow> Inl e | Inr ys \<Rightarrow> Inr (y # ys)))"

definition tLiveClientContent :: "Collaborators \<Rightarrow> ApiClient \<Rightarrow> jsobj \<Rightarrow> error + jsobj" where
  \<open>tLiveClientContent env api params =
     (let turns = obj_get params ''turns'' in
      if turns \<noteq> JNull \<and> turns \<noteq> JUndefined then
        (case (case tContents env turns of
                 Inl e \<Rightarrow> Inl e
               | Inr contents \<Rightarrow>
                   if isVertexAI api then map_throwing (contentToVertex env) contents
                   else map_throwing (contentToMldev env) contents) of
           Inl e \<Rightarrow>
             Inl (Error (''Failed to parse client content "turns", type: '' @ CHR 0x27 # typeof turns
                         @ [CHR 0x27]))
         | Inr contents \<Rightarrow>
             Inr [(''clientContent'',
                   JObj [(''turns'', JArr contents),
                         (''turnComplete'', obj_get params ''turnComplete'')])])
      else
        Inr [(''clientContent'', JObj [(''turnComplete'', obj_get params ''turnComplete'')])])\<close>

text \<open>The \<^verbatim>\<open>for\<close> loop of \<^verbatim>\<open>tLiveClienttToolResponse\<close>: the first entry that fails a
  check throws, \<^verbatim>\<open>None\<close> when every entry passes.\<close>

fun check_function_responses :: "ApiClient \<Rightarrow> jsval list \<Rightarrow> error option" where
  "check_function_responses api [] = None"
| "check_function_responses api (functionResponse # rest) =
     (if typeof functionResponse \<noteq> ''object'' \<or> functionResponse = JNull
         \<or> \<not> has_property ''name'' functionResponse
         \<or> \<not> has_property ''response'' functionResponse
      then Some (Error (''Could not parse function response, type '' @ CHR 0x27 # typeof functionResponse
                        @ [CHR 0x27, CHR ''.'']))
      else if \<not> isVertexAI api \<and> \<not> has_property ''id'' functionResponse
      then Some (Error FUNCTION_RESPONSE_REQUIRES_ID)
      else check_function_responses api rest)"

fun is_array :: "jsval \<Rightarrow> bool" where
  "is_array (JArr xs) = True"
| "is_array v = False"

fun array_elements :: "jsval \<Rightarrow> jsval list" where
  "array_elements (JArr xs) = xs"
| "array_elements v = []"

definition tLiveClienttToolResponse :: "ApiClient \<Rightarrow> jsobj \<Rightarrow> error + jsobj" where
  "tLiveClienttToolResponse api params =
     (if nullish (obj_get params ''functionResponses'') then Inl (Error ''functionResponses is required.'')
      else
        let functionResponses =
              (if \<not> is_array (obj_get params ''functionResponses'')
               then [obj_get params ''functionResponses'']
               else array_elements (obj_get params ''functionResponses''))
        in if length functionResponses = 0 then Inl (Error ''functionResponses is required.'')
           else (case check_function_responses api functionResponses of
                   Some e \<Rightarrow> Inl e
                 | None \<Rightarrow>
                     Inr [(''toolResponse'', JObj [(''functionResponses'', JArr functionResponses)])]))"

text \<open>
  The send operations return what the call returns or throws, and the session after it.
  \<^verbatim>\<open>sendClientContent\<close> takes \<^verbatim>\<open>None\<close> when it is called with no argument.
\<close>

definition sendClientContent ::
    "Collaborators \<Rightarrow> Session \<Rightarrow> jsobj option \<Rightarrow> (error + unit) \<times> Session" where
  "sendClientContent env s params =
     (let params' = object_assign (object_assign [] defaultLiveSendClientContentParamerters)
                      (case params of None \<Rightarrow> [] | Some ps \<Rightarrow> ps)
      in case tLiveClientContent env (apiClient s) params' of
           Inl e \<Rightarrow> (Inl e, s)
         | Inr clientMessage \<Rightarrow>
             (Inr (), s\<lparr>conn := ws_send (conn s) (stringify_object clientMessage)\<rparr>))"

definition sendRealtimeInput ::
    "Collaborators \<Rightarrow> Session \<Rightarrow> jsval \<Rightarrow> (error + unit) \<times> Session" where
  "sendRealtimeInput env s params =
     (case (if isVertexAI (apiClient s) then liveSendRealtimeInputParametersToVertex env params
            else liveSendRealtimeInputParametersToMldev env params) of
        Inl e \<Rightarrow> (Inl e, s)
      | Inr realtimeInput \<Rightarrow>
          (Inr (), s\<lparr>conn := ws_send (conn s) (stringify_object [(''realtimeInput'', realtimeInput)])\<rparr>))"

definition sendToolResponse :: "Session \<Rightarrow> jsobj \<Rightarrow> (error + unit) \<times> Session" where
  "sendToolResponse s params =
     (if nullish (obj_get params ''functionResponses'')
      then (Inl (Error ''Tool response parameters are required.''), s)
      else case tLiveClienttToolResponse (apiClient s) params of
             Inl e \<Rightarrow> (Inl e, s)
           | Inr clientMessage \<Rightarrow>
               (Inr (), s\<lparr>conn := ws_send (conn s) (stringify_object clientMessage)\<rparr>))"

definition close :: "Session \<Rightarrow> Session" where
  "close s = s\<lparr>conn := ws_close (conn s)\<rparr>"

section \<open>Live.connect\<close>

text \<open>An awaited call ends fulfilled, rejected, or not at all.\<close>

datatype 'a promise = Pending | Rejected error | Fulfilled 'a

text \<open>
  What a call of \<^verbatim>\<open>connect\<close> leaves behind: its promise, the caller's \<^verbatim>\<open>params\<close>
  object as the call left it, the connection the factory made (if it got that far), the
  console warnings and the user handlers it called.
\<close>

record connect_result =
  result :: "Session promise"
  params_after :: LiveConnectParameters
  socket :: "WebSocket option"
  console :: "string list"
  user_calls :: "string list"

text \<open>Modelled from the spec: \<^verbatim>\<open>types.Modality.AUDIO\<close> is declared in \<^verbatim>\<open>types.ts\<close>, which is
  not among the sources; the spec gives the default modality as \<^verbatim>\<open>"AUDIO"\<close>.\<close>

definition Modality_AUDIO :: jsval where
  "Modality_AUDIO = JStr ''AUDIO''"

text \<open>A template literal writes an absent string as \<^verbatim>\<open>undefined\<close>.\<close>

definition template :: "string option \<Rightarrow> string" where
  "template v = (case v of None \<Rightarrow> ''undefined'' | Some s \<Rightarrow> s)"

text \<open>\<^verbatim>\<open>mapToHeaders\<close> and \<^verbatim>\<open>headersToMap\<close>. A \<^verbatim>\<open>Headers\<close> object is the list of the
  pairs appended to it; its normalisation of names is the platform's and is left out.\<close>

definition mapToHeaders :: "(string \<times> string) list \<Rightarrow> (string \<times> string) list" where
  "mapToHeaders m = foldl (\<lambda>headers (key, v). headers @ [(key, v)]) [] m"

definition headersToMap :: "(string \<times> string) list \<Rightarrow> (string \<times> string) list" where
  "headersToMap hs = foldl (\<lambda>headerMap (key, v). obj_set headerMap key v) [] hs"

text \<open>Lines 138 to 145: the default headers, marked when an MCP tool is configured.\<close>

definition connect_headers ::
    "Collaborators \<Rightarrow> ApiClient \<Rightarrow> LiveConnectParameters \<Rightarrow> (string \<times> string) list" where
  "connect_headers env api params =
     mapToHeaders
       (case config params of
          None \<Rightarrow> getDefaultHeaders api
        | Some c \<Rightarrow>
            if truthy (obj_get c ''tools'') \<and> hasMcpToolUsage env (obj_get c ''tools'')
            then setMcpUsageHeader env (getDefaultHeaders api)
            else getDefaultHeaders api)"

text \<open>Lines 146 to 170: the URL. \<^verbatim>\<open>if (apiKey)\<close> holds of a non-empty string.\<close>

definition ephemeral_token :: "ApiClient \<Rightarrow> bool" where
  "ephemeral_token api =
     (\<not> isVertexAI api \<and>
      (case getApiKey api of None \<Rightarrow> False | Some apiKey \<Rightarrow> apiKey \<noteq> [] \<and> startsWith apiKey ''auth_tokens/''))"

definition connect_url :: "ApiClient \<Rightarrow> string" where
  "connect_url api =
     (if isVertexAI api then
        getWebsocketBaseUrl api @ ''/ws/google.cloud.aiplatform.'' @ getApiVersion api
          @ ''.LlmBidiService/BidiGenerateContent''
      else
        case getApiKey api of
          None \<Rightarrow> getWebsocketBaseUrl api
        | Some apiKey \<Rightarrow>
            if apiKey \<noteq> [] then
              let method = (if startsWith apiKey ''auth_tokens/''
                            then ''BidiGenerateContentConstrained'' else ''BidiGenerateContent'');
                  keyName = (if startsWith apiKey ''auth_tokens/'' then ''access_token'' else ''key'')
              in getWebsocketBaseUrl api @ ''/ws/google.ai.generativelanguage.'' @ getApiVersion api
                   @ ''.GenerativeService.'' @ method @ ''?'' @ keyName @ ''='' @ apiKey
            else getWebsocketBaseUrl api)"

text \<open>Lines 212 to 221: a bare \<^verbatim>\<open>publishers/\<close> name is qualified on Vertex.\<close>

definition qualify_model :: "ApiClient \<Rightarrow> string \<Rightarrow> string" where
  "qualify_model api transformedModel =
     (if isVertexAI api \<and> startsWith transformedModel ''publishers/''
      then (''projects/'' @ template (getProject api) @ ''/locations/'' @ template (getLocation api) @ ''/'')
             @ transformedModel
      else transformedModel)"

text \<open>Lines 225 to 235: the default response modality is written into the caller's
  \<^verbatim>\<open>params\<close>.\<close>

definition default_modalities :: "ApiClient \<Rightarrow> LiveConnectParameters \<Rightarrow> LiveConnectParameters" where
  "default_modalities api params =
     (if isVertexAI api \<and> config_get params ''responseModalities'' = JUndefined
      then (case config params of
              None \<Rightarrow> params\<lparr>config := Some [(''responseModalities'', JArr [Modality_AUDIO])]\<rparr>
            | Some c \<Rightarrow> params\<lparr>config := Some (obj_set c ''responseModalities'' (JArr [Modality_AUDIO]))\<rparr>)
      else params)"

text \<open>Lines 242 to 251. \<^verbatim>\<open>for (const tool of inputTools)\<close> walks an array (or the
  characters of a string) and throws on anything else; \<^verbatim>\<open>'callTool' in tool\<close> throws on
  a value that is not an object.\<close>

definition inputTools :: "LiveConnectParameters \<Rightarrow> jsval" where
  "inputTools params =
     (if nullish (config_get params ''tools'') then JArr [] else config_get params ''tools'')"

fun iterate :: "jsval \<Rightarrow> error + jsval list" where
  "iterate (JArr xs) = Inr xs"
| "iterate (JStr s) = Inr (map (\<lambda>c. JStr [c]) s)"
| "iterate v = Inl TypeError"

fun isCallableTool :: "jsval \<Rightarrow> error + bool" where
  "isCallableTool (JObj ps) =
     Inr (obj_has ps ''callTool'' \<and> typeof (obj_get ps ''callTool'') = ''function'')"
| "isCallableTool (JArr xs) = Inr False"
| "isCallableTool (JFun f) = Inr False"
| "isCallableTool v = Inl TypeError"

fun convert_tools :: "Collaborators \<Rightarrow> jsval list \<Rightarrow> error + jsval list" where
  "convert_tools env [] = Inr []"
| "convert_tools env (tool # rest) =
     (case isCallableTool tool of
        Inl e \<Rightarrow> Inl e
      | Inr callable \<Rightarrow>
          (case (if callable then callableTool_tool env tool else Inr tool) of
             Inl e \<Rightarrow> Inl e
           | Inr converted \<Rightarrow>
               (case convert_tools env rest of
                  Inl e \<Rightarrow> Inl e
                | Inr convertedTools \<Rightarrow> Inr (converted # convertedTools))))"

definition convertedTools :: "Collaborators \<Rightarrow> LiveConnectParameters \<Rightarrow> error + jsval list" where
  "convertedTools env params =
     (case iterate (inputTools params) of
        Inl e \<Rightarrow> Inl e
      | Inr tools \<Rightarrow> convert_tools env tools)"

text \<open>Lines 252 to 254: \<^verbatim>\<open>params.config!.tools = convertedTools\<close>, which would throw on an
  absent \<^verbatim>\<open>config\<close>.\<close>

definition assign_tools :: "LiveConnectParameters \<Rightarrow> jsval list \<Rightarrow> error + LiveConnectParameters" where
  "assign_tools params tools =
     (if length tools > 0
      then (case config params of
              None \<Rightarrow> Inl TypeError
            | Some c \<Rightarrow> Inr (params\<lparr>config := Some (obj_set c ''tools'' (JArr tools))\<rparr>))
      else Inr params)"

text \<open>Lines 260 to 270: the converter of the backend.\<close>

definition setup_message ::
    "Collaborators \<Rightarrow> ApiClient \<Rightarrow> LiveConnectParameters \<Rightarrow> error + jsobj" where
  "setup_message env api liveConnectParameters =
     (if isVertexAI api then liveConnectParametersToVertex env api liveConnectParameters
      else liveConnectParametersToMldev env api liveConnectParameters)"

text \<open>The deprecation warning of lines 236 to 241.\<close>

definition generationConfig_warning :: "LiveConnectParameters \<Rightarrow> string list" where
  "generationConfig_warning params =
     (if truthy (config_get params ''generationConfig'')
      then [''Setting `LiveConnectConfig.generation_config` is deprecated, please set the fields on `LiveConnectConfig` directly. This will become an error in a future version (not before Q3 2025).'']
      else [])"

text \<open>Lines 212 to 273: what \<^verbatim>\<open>connect\<close> does once the transport is open. A throw
  rejects the call and leaves everything as it is at that point.\<close>

definition connect_opened ::
    "Collaborators \<Rightarrow> ApiClient \<Rightarrow> LiveConnectParameters \<Rightarrow> WebSocket \<Rightarrow> string list \<Rightarrow> string list
       \<Rightarrow> connect_result" where
  "connect_opened env api params ws warned called =
     (case tModel env api (model params) of
        Inl e \<Rightarrow>
          \<lparr>result = Rejected e, params_after = params, socket = Some ws, console = warned,
           user_calls = called\<rparr>
      | Inr transformedModel \<Rightarrow>
          let params1 = default_modalities api params;
              warned1 = warned @ generationConfig_warning params1
          in (case convertedTools env params1 of
               Inl e \<Rightarrow>
                 \<lparr>result = Rejected e, params_after = params1, socket = Some ws, console = warned1,
                  user_calls = called\<rparr>
             | Inr tools \<Rightarrow>
                 (case assign_tools params1 tools of
                    Inl e \<Rightarrow>
                      \<lparr>result = Rejected e, params_after = params1, socket = Some ws,
                       console = warned1, user_calls = called\<rparr>
                  | Inr params2 \<Rightarrow>
                      (case setup_message env api
                              \<lparr>model = qualify_model api transformedModel, config = config params2,
                               callbacks = callbacks params2\<rparr> of
                         Inl e \<Rightarrow>
                           \<lparr>result = Rejected e, params_after = params2, socket = Some ws,
                            console = warned1, user_calls = called\<rparr>
                       | Inr clientMessage \<Rightarrow>
                           \<lparr>result =
                              Fulfilled
                                \<lparr>conn = ws_send ws (stringify_object (obj_delete clientMessage ''config'')),
                                 apiClient = api\<rparr>,
                            params_after = params2,
                            socket = Some (ws_send ws (stringify_object (obj_delete clientMessage ''config''))),
                            console = warned1, user_calls = called\<rparr>))))"

text \<open>Lines 146 to 170, the headers: only Vertex asks the auth provider, which may reject.\<close>

definition authorize ::
    "Collaborators \<Rightarrow> ApiClient \<Rightarrow> (string \<times> string) list \<Rightarrow> error + (string \<times> string) list" where
  "authorize env api hs = (if isVertexAI api then addAuthHeaders env hs else Inr hs)"

definition ephemeral_warning :: "ApiClient \<Rightarrow> string list" where
  "ephemeral_warning api =
     (if ephemeral_token api
      then [''Warning: Ephemeral token support is experimental and may change in future versions.'']
      else [])"

text \<open>The user's \<^verbatim>\<open>onopen\<close> handler, called by \<^verbatim>\<open>onopenAwaitedCallback\<close> when there is
  one.\<close>

definition onopen_calls :: "LiveConnectParameters \<Rightarrow> string list" where
  "onopen_calls params =
     (case callbacks params of
        None \<Rightarrow> []
      | Some cb \<Rightarrow> (case onopen cb of None \<Rightarrow> [] | Some h \<Rightarrow> [h]))"

text \<open>
  \<^verbatim>\<open>connect\<close>. On Vertex the auth provider may reject before any connection is made.
  The call waits for the transport's \<^verbatim>\<open>onopen\<close>, which calls the user's handler and
  resolves the wait; without it the call never returns.
\<close>

definition connect :: "Collaborators \<Rightarrow> ApiClient \<Rightarrow> LiveConnectParameters \<Rightarrow> connect_result" where
  "connect env api params =
     (case authorize env api (connect_headers env api params) of
        Inl e \<Rightarrow>
          \<lparr>result = Rejected e, params_after = params, socket = None, console = [], user_calls = []\<rparr>
      | Inr hs \<Rightarrow>
          let ws = ws_connect \<lparr>url = connect_url api, headers = headersToMap hs, events = []\<rparr>
          in if \<not> transportOpens env
             then \<lparr>result = Pending, params_after = params, socket = Some ws,
                   console = ephemeral_warning api, user_calls = []\<rparr>
             else connect_opened env api params (ws_opened ws) (ephemeral_warning api)
                    (onopen_calls params))"

section \<open>Inbound messages\<close>

text \<open>
  The payload of a \<^verbatim>\<open>MessageEvent\<close>, with the text it holds: a \<^verbatim>\<open>Blob\<close>, whose text is
  only there once the promise of \<^verbatim>\<open>text()\<close> has settled, an \<^verbatim>\<open>ArrayBuffer\<close>, which
  \<^verbatim>\<open>TextDecoder\<close> decodes at once, or anything else, which is used as it is.
\<close>

datatype payload = Blob string | ArrayBuffer string | Text string

text \<open>\<^verbatim>\<open>JSON.parse\<close> and the two converters of server messages are parameters.\<close>

record Decoders =
  JSON_parse :: "string \<Rightarrow> error + jsval"
  liveServerMessageFromVertex :: "jsval \<Rightarrow> error + jsobj"
  liveServerMessageFromMldev :: "jsval \<Rightarrow> error + jsobj"

text \<open>
  What the runs of \<^verbatim>\<open>handleWebSocketMessage\<close> on one connection have done: the runs that
  wait at \<^verbatim>\<open>await event.data.text()\<close> (each with the text its Blob holds, in order of
  arrival), the messages the user's \<^verbatim>\<open>onmessage\<close> handler was called with, oldest
  first, and the errors of runs that threw. The caller discards the promise of each run
  (\<^verbatim>\<open>void handleWebSocketMessage(...)\<close>), so nothing waits for a run to end.
\<close>

record inbound =
  waiting :: "string list"
  received :: "jsobj list"
  failed :: "error list"

text \<open>Lines 57 to 65: from the text to the \<^verbatim>\<open>LiveServerMessage\<close>.\<close>

definition decode :: "Decoders \<Rightarrow> ApiClient \<Rightarrow> string \<Rightarrow> error + jsobj" where
  "decode dec api jsonData =
     (case JSON_parse dec jsonData of
        Inl e \<Rightarrow> Inl e
      | Inr data \<Rightarrow>
          (case (if isVertexAI api then liveServerMessageFromVertex dec data
                 else liveServerMessageFromMldev dec data) of
             Inl e \<Rightarrow> Inl e
           | Inr resp \<Rightarrow> Inr (object_assign [] resp)))"

text \<open>Line 67: the call of \<^verbatim>\<open>onmessage\<close>, which a throw before it prevents.\<close>

definition dispatch :: "Decoders \<Rightarrow> ApiClient \<Rightarrow> string \<Rightarrow> inbound \<Rightarrow> inbound" where
  "dispatch dec api jsonData st =
     (case decode dec api jsonData of
        Inl e \<Rightarrow> st\<lparr>failed := failed st @ [e]\<rparr>
      | Inr serverMessage \<Rightarrow> st\<lparr>received := received st @ [serverMessage]\<rparr>)"

text \<open>\<^verbatim>\<open>handleWebSocketMessage\<close> up to its first suspension: a Blob makes the run wait,
  any other payload is dispatched before the call returns.\<close>

fun handleWebSocketMessage :: "Decoders \<Rightarrow> ApiClient \<Rightarrow> payload \<Rightarrow> inbound \<Rightarrow> inbound" where
  "handleWebSocketMessage dec api (Blob b) st = st\<lparr>waiting := waiting st @ [b]\<rparr>"
| "handleWebSocketMessage dec api (ArrayBuffer t) st = dispatch dec api t st"
| "handleWebSocketMessage dec api (Text t) st = dispatch dec api t st"

text \<open>
  The jobs of the event loop that concern the connection: the transport delivers a
  message, or the \<^verbatim>\<open>text()\<close> promise of the \<open>i\<close>-th waiting run settles and the run
  goes on from its \<^verbatim>\<open>await\<close>.
\<close>

datatype job = Message payload | TextSettled nat

fun step :: "Decoders \<Rightarrow> ApiClient \<Rightarrow> inbound \<Rightarrow> job \<Rightarrow> inbound" where
  "step dec api st (Message p) = handleWebSocketMessage dec api p st"
| "step dec api st (TextSettled i) =
     (if i < length (waiting st)
      then dispatch dec api (waiting st ! i) (st\<lparr>waiting := take i (waiting st) @ drop (Suc i) (waiting st)\<rparr>)
      else st)"

definition run_jobs :: "Decoders \<Rightarrow> ApiClient \<Rightarrow> job list \<Rightarrow> inbound" where
  "run_jobs dec api jobs = foldl (step dec api) \<lparr>waiting = [], received = [], failed = []\<rparr> jobs"

text \<open>The payloads in the order the transport delivered them, the text of a payload,
  and the messages that the texts decode to, in the order of the texts.\<close>

fun delivered :: "job list \<Rightarrow> payload list" where
  "delivered [] = []"
| "delivered (Message p # ts) = p # delivered ts"
| "delivered (TextSettled i # ts) = delivered ts"

fun payload_text :: "payload \<Rightarrow> string" where
  "payload_text (Blob t) = t"
| "payload_text (ArrayBuffer t) = t"
| "payload_text (Text t) = t"

fun is_blob :: "payload \<Rightarrow> bool" where
  "is_blob (Blob t) = True"
| "is_blob p = False"

fun decoded :: "Decoders \<Rightarrow> ApiClient \<Rightarrow> string list \<Rightarrow> jsobj list" where
  "decoded dec api [] = []"
| "decoded dec api (t # ts) =
     (case decode dec api t of
        Inl e \<Rightarrow> decoded dec api ts
      | Inr serverMessage \<Rightarrow> serverMessage # decoded dec api ts)"

section \<open>The client constructor\<close>

text \<open>
  \<^verbatim>\<open>GoogleGenAIOptions\<close> (\<^verbatim>\<open>node_client.ts\<close>), with the fields the constructor reads.
\<close>

record GoogleGenAIOptions =
  vertexai :: "bool option"
  project :: "string option"
  location :: "string option"
  apiKey :: "string option"
  apiVersion :: "string option"
  apiUrl :: "string option"
  googleAuthOptions :: "jsobj option"
  httpOptions :: "jsobj option"

text \<open>The fields of the constructed client, the \<^verbatim>\<open>options\<close> object as the constructor
  left it, and the console output.\<close>

record GoogleGenAI =
  this_vertexai :: bool
  this_apiUrl :: "string option"
  this_apiKey :: "string option"
  this_project :: "string option"
  this_location :: "string option"
  this_apiVersion :: "string option"
  options_after :: GoogleGenAIOptions
  printed :: "string list"

text \<open>A string that is set and not empty, as \<^verbatim>\<open>if (s)\<close> and \<^verbatim>\<open>a || b\<close> see it.\<close>

definition is_set :: "string option \<Rightarrow> bool" where
  "is_set v = (case v of None \<Rightarrow> False | Some s \<Rightarrow> s \<noteq> [])"

definition or_else :: "string option \<Rightarrow> string option \<Rightarrow> string option" where
  "or_else a b = (if is_set a then a else b)"

definition nullish_or :: "'a option \<Rightarrow> 'a option \<Rightarrow> 'a option" where
  "nullish_or a b = (case a of None \<Rightarrow> b | Some x \<Rightarrow> Some x)"

text \<open>\<^verbatim>\<open>trim\<close> and \<^verbatim>\<open>toLowerCase\<close>, on ASCII.\<close>

definition is_space :: "char \<Rightarrow> bool" where
  "is_space c = (c = CHR '' '' \<or> c = CHR 0x09 \<or> c = CHR 0x0A \<or> c = CHR 0x0B \<or> c = CHR 0x0C \<or> c = CHR 0x0D)"

definition trim :: "string \<Rightarrow> string" where
  "trim s = rev (dropWhile is_space (rev (dropWhile is_space s)))"

definition lower_char :: "char \<Rightarrow> char" where
  "lower_char c =
     (if 65 \<le> (of_char c :: nat) \<and> (of_char c :: nat) \<le> 90 then char_of ((of_char c :: nat) + 32) else c)"

definition toLowerCase :: "string \<Rightarrow> string" where
  "toLowerCase s = map lower_char s"

text \<open>\<^verbatim>\<open>process.env\<close> is a map from names to values.\<close>

definition getEnv :: "(string \<rightharpoonup> string) \<Rightarrow> string \<Rightarrow> string option" where
  "getEnv penv name = map_option trim (penv name)"

definition stringToBoolean :: "string option \<Rightarrow> bool" where
  "stringToBoolean str = (case str of None \<Rightarrow> False | Some s \<Rightarrow> toLowerCase s = ''true'')"

definition getBooleanEnv :: "(string \<rightharpoonup> string) \<Rightarrow> string \<Rightarrow> bool" where
  "getBooleanEnv penv name = stringToBoolean (getEnv penv name)"

definition both_set_warning :: "string option \<Rightarrow> string option \<Rightarrow> string list" where
  "both_set_warning a b =
     (if is_set a \<and> is_set b
      then [''Both GOOGLE_API_KEY and GEMINI_API_KEY are set. Using GOOGLE_API_KEY.''] else [])"

definition getApiKeyFromEnv :: "(string \<rightharpoonup> string) \<Rightarrow> string option \<times> string list" where
  "getApiKeyFromEnv penv =
     (or_else (getEnv penv ''GOOGLE_API_KEY'') (getEnv penv ''GEMINI_API_KEY''),
      both_set_warning (getEnv penv ''GOOGLE_API_KEY'') (getEnv penv ''GEMINI_API_KEY''))"

definition getBaseApiUrlFromEnv :: "(string \<rightharpoonup> string) \<Rightarrow> string option \<times> string list" where
  "getBaseApiUrlFromEnv penv =
     (or_else (getEnv penv ''GOOGLE_BASE_API_URL'') (getEnv penv ''GEMINI_BASE_API_URL''),
      both_set_warning (getEnv penv ''GOOGLE_BASE_API_URL'') (getEnv penv ''GEMINI_BASE_API_URL''))"

text \<open>Lines 108 to 142: which of the API key and the project and location survive on
  Vertex. The result is the key, the project, the location and the debug output.\<close>

definition express_mode ::
    "GoogleGenAIOptions \<Rightarrow> string option \<Rightarrow> string option \<Rightarrow> string option
       \<Rightarrow> string option \<Rightarrow> string option \<Rightarrow> string option
       \<Rightarrow> (string option \<times> string option \<times> string option) \<times> string list" where
  "express_mode options envApiKey envProject envLocation key proj loc =
       (if vertexai options = Some True then
          let credentials =
                truthy (case googleAuthOptions options of None \<Rightarrow> JUndefined
                        | Some g \<Rightarrow> obj_get g ''credentials'');
              key1 = (if credentials then None else key);
              said1 =
                (if credentials
                 then [''The user provided Google Cloud credentials will take precedence over the API key from the environment variable.'']
                 else [])
          in if (is_set envProject \<or> is_set envLocation) \<and> is_set (apiKey options)
             then ((key1, None, None),
                   said1 @ [''The user provided Vertex AI API key will take precedence over the project/location from the environment variables.''])
             else if (is_set (project options) \<or> is_set (location options)) \<and> is_set envApiKey
             then ((None, proj, loc),
                   said1 @ [''The user provided project/location will take precedence over the API key from the environment variables.''])
             else if (is_set envProject \<or> is_set envLocation) \<and> is_set envApiKey
             then ((None, proj, loc),
                   said1 @ [''The project/location from the environment variables will take precedence over the API key from the environment variables.''])
             else ((key1, proj, loc), said1)
        else ((key, proj, loc), []))"

text \<open>
  The constructor, up to the values it hands to \<^verbatim>\<open>NodeAuth\<close> and \<^verbatim>\<open>ApiClient\<close>.
  \<^verbatim>\<open>getBaseUrl\<close> is imported and is a parameter.
\<close>

definition GoogleGenAI_constructor ::
    "(GoogleGenAIOptions \<Rightarrow> string option \<Rightarrow> string option \<Rightarrow> string option)
       \<Rightarrow> (string \<rightharpoonup> string) \<Rightarrow> GoogleGenAIOptions \<Rightarrow> error + GoogleGenAI" where
  "GoogleGenAI_constructor getBaseUrl penv options =
     (if (is_set (project options) \<or> is_set (location options)) \<and> is_set (apiKey options)
      then Inl (Error ''Project/location and API key are mutually exclusive in the client initializer.'')
      else
        let envApiBaseUrl = getBaseApiUrlFromEnv penv;
            envApiKey = getApiKeyFromEnv penv;
            envProject = getEnv penv ''GOOGLE_CLOUD_PROJECT'';
            envLocation = getEnv penv ''GOOGLE_CLOUD_LOCATION'';
            resolved =
              express_mode options (fst envApiKey) envProject envLocation
                (nullish_or (apiKey options) (fst envApiKey))
                (nullish_or (project options) envProject)
                (nullish_or (location options) envLocation);
            baseUrl = getBaseUrl options (getEnv penv ''GOOGLE_VERTEX_BASE_URL'')
                        (getEnv penv ''GOOGLE_GEMINI_BASE_URL'');
            options' =
              (case baseUrl of
                 None \<Rightarrow> options
               | Some b \<Rightarrow>
                   if b \<noteq> []
                   then options\<lparr>httpOptions :=
                          Some (obj_set (case httpOptions options of None \<Rightarrow> [] | Some h \<Rightarrow> h)
                                  ''baseUrl'' (JStr b))\<rparr>
                   else options)
        in Inr \<lparr>this_vertexai =
                  (case vertexai options of
                     Some b \<Rightarrow> b
                   | None \<Rightarrow> getBooleanEnv penv ''GOOGLE_GENAI_USE_VERTEXAI''),
                this_apiUrl = nullish_or (apiUrl options) (fst envApiBaseUrl),
                this_apiKey = fst (fst resolved),
                this_project = fst (snd (fst resolved)),
                this_location = snd (snd (fst resolved)),
                this_apiVersion = apiVersion options,
                options_after = options',
                printed = snd envApiBaseUrl @ snd envApiKey @ snd resolved\<rparr>)"

text \<open>A function response that carries \<^verbatim>\<open>name\<close> and \<^verbatim>\<open>response\<close>; only an object does.\<close>

definition well_formed_response :: "jsval \<Rightarrow> bool" where
  "well_formed_response fr = (has_property ''name'' fr \<and> has_property ''response'' fr)"

section \<open>Example inputs\<close>

definition direct_client :: ApiClient where
  "direct_client =
     \<lparr>isVertexAI = False, getApiKey = Some ''secret'', getProject = None, getLocation = None,
      getWebsocketBaseUrl = ''wss://generativelanguage.googleapis.com'', getApiVersion = ''v1beta'',
      getDefaultHeaders = [(''user-agent'', ''google-genai-sdk'')]\<rparr>"

definition vertex_client :: ApiClient where
  "vertex_client =
     \<lparr>isVertexAI = True, getApiKey = None, getProject = Some ''p'', getLocation = Some ''l'',
      getWebsocketBaseUrl = ''wss://l-aiplatform.googleapis.com'', getApiVersion = ''v1beta1'',
      getDefaultHeaders = [(''user-agent'', ''google-genai-sdk'')]\<rparr>"

definition open_socket :: WebSocket where
  "open_socket = \<lparr>url = ''wss://example'', headers = [], events = [Connect, Opened, Send ''{}'']\<rparr>"

definition direct_session :: Session where
  "direct_session = \<lparr>conn = open_socket, apiClient = direct_client\<rparr>"

definition vertex_session :: Session where
  "vertex_session = \<lparr>conn = open_socket, apiClient = vertex_client\<rparr>"

text \<open>Stand-ins for the collaborators, for the examples only.\<close>

definition example_env :: Collaborators where
  "example_env =
     \<lparr>tModel = (\<lambda>api m. if m = [] then Inl (Error ''model is required and must be a string'')
                         else if isVertexAI api then Inr (''publishers/google/models/'' @ m)
                         else Inr (''models/'' @ m)),
      tContents = (\<lambda>turns. Inr [turns]),
      contentToVertex = Inr,
      contentToMldev = Inr,
      liveConnectParametersToVertex =
        (\<lambda>api p. Inr [(''setup'', JObj [(''model'', JStr (model p)),
                                        (''responseModalities'', config_get p ''responseModalities''),
                                        (''tools'', config_get p ''tools'')]),
                       (''config'', JObj [])]),
      liveConnectParametersToMldev =
        (\<lambda>api p. Inr [(''setup'', JObj [(''model'', JStr (model p)),
                                        (''responseModalities'', config_get p ''responseModalities''),
                                        (''tools'', config_get p ''tools'')])]),
      liveSendRealtimeInputParametersToVertex = Inr,
      liveSendRealtimeInputParametersToMldev = Inr,
      hasMcpToolUsage = (\<lambda>tools. False),
      setMcpUsageHeader = (\<lambda>hs. hs),
      addAuthHeaders = (\<lambda>hs. Inr (hs @ [(''Authorization'', ''Bearer token'')])),
      callableTool_tool = (\<lambda>tool. Inr (JObj [(''functionDeclarations'', JArr [])])),
      transportOpens = True\<rparr>"

definition example_callbacks :: LiveCallbacks where
  "example_callbacks = \<lparr>onopen = Some ''onopen'', onmessage = ''onmessage'', onerror = None, onclose = None\<rparr>"

definition example_params :: LiveConnectParameters where
  "example_params = \<lparr>model = ''gemini-live'', config = None, callbacks = Some example_callbacks\<rparr>"

definition example_params_tools :: LiveConnectParameters where
  "example_params_tools =
     \<lparr>model = ''gemini-live'',
      config = Some [(''tools'', JArr [JObj [(''callTool'', JFun ''callTool'')],
                                      JObj [(''googleSearch'', JObj [])]])],
      callbacks = Some example_callbacks\<rparr>"

definition ephemeral_client :: ApiClient where
  "ephemeral_client = direct_client\<lparr>getApiKey := Some ''auth_tokens/abc''\<rparr>"

definition keyless_client :: ApiClient where
  "keyless_client = direct_client\<lparr>getApiKey := None\<rparr>"

definition example_decoders :: Decoders where
  "example_decoders =
     \<lparr>JSON_parse = (\<lambda>t. if t = ''1'' then Inr (JNum 1) else if t = ''2'' then Inr (JNum 2)
                         else Inl (Error ''SyntaxError'')),
      liveServerMessageFromVertex = (\<lambda>data. Inr [(''serverContent'', data)]),
      liveServerMessageFromMldev = (\<lambda>data. Inr [(''serverContent'', data)])\<rparr>"

definition example_options :: GoogleGenAIOptions where
  "example_options =
     \<lparr>vertexai = Some True, project = Some ''p'', location = None, apiKey = Some ''secret'',
      apiVersion = None, apiUrl = None, googleAuthOptions = None, httpOptions = None\<rparr>"

definition vertex_connected :: Session where
  \<open>vertex_connected =
     \<lparr>conn =
        \<lparr>url = ''wss://l-aiplatform.googleapis.com/ws/google.cloud.aiplatform.v1beta1.LlmBidiService/BidiGenerateContent'',
         headers = [(''user-agent'', ''google-genai-sdk''), (''Authorization'', ''Bearer token'')],
         events = [Connect, Opened,
                   Send ''{"setup":{"model":"projects/p/locations/l/publishers/google/models/gemini-live","responseModalities":["AUDIO"]}}'']\<rparr>,
      apiClient = vertex_client\<rparr>\<close>

definition direct_connected :: Session where
  \<open>direct_connected =
     \<lparr>conn =
        \<lparr>url = ''wss://generativelanguage.googleapis.com/ws/google.ai.generativelanguage.v1beta.GenerativeService.BidiGenerateContent?key=secret'',
         headers = [(''user-agent'', ''google-genai-sdk'')],
         events = [Connect, Opened, Send ''{"setup":{"model":"models/gemini-live"}}'']\<rparr>,
      apiClient = direct_client\<rparr>\<close>

definition vertex_connected_tools :: Session where
  \<open>vertex_connected_tools =
     \<lparr>conn =
        \<lparr>url = ''wss://l-aiplatform.googleapis.com/ws/google.cloud.aiplatform.v1beta1.LlmBidiService/BidiGenerateContent'',
         headers = [(''user-agent'', ''google-genai-sdk''), (''Authorization'', ''Bearer token'')],
         events = [Connect, Opened,
                   Send ''{"setup":{"model":"projects/p/locations/l/publishers/google/models/gemini-live","responseModalities":["AUDIO"],"tools":[{"functionDeclarations":[]},{"googleSearch":{}}]}}'']\<rparr>,
      apiClient = vertex_client\<rparr>\<close>

section \<open>Properties of the send operations\<close>

lemma has_property_object: "has_property k fr \<Longrightarrow> typeof fr = ''object'' \<and> fr \<noteq> JNull"
  by (cases fr) auto

lemma check_function_responses_vertex:
  "isVertexAI api \<Longrightarrow> list_all well_formed_response frs \<Longrightarrow> check_function_responses api frs = None"
  by (induction frs) (auto simp: well_formed_response_def dest: has_property_object)

lemma check_function_responses_direct:
  "\<not> isVertexAI api \<Longrightarrow> list_all well_formed_response frs
   \<Longrightarrow> \<exists>fr \<in> set frs. \<not> has_property ''id'' fr
   \<Longrightarrow> check_function_responses api frs = Some (Error FUNCTION_RESPONSE_REQUIRES_ID)"
  by (induction frs) (auto simp: well_formed_response_def dest: has_property_object)

text \<open>
  C1, as the code has it. When every entry of the \<^verbatim>\<open>functionResponses\<close> array carries
  \<^verbatim>\<open>name\<close> and \<^verbatim>\<open>response\<close> and at least one entry has no \<^verbatim>\<open>id\<close>, then
  \<^verbatim>\<open>sendToolResponse\<close> on a direct-API session throws the id-required message and leaves
  the connection as it was, and on a Vertex session it returns and has handed the frame
  \<^verbatim>\<open>{"toolResponse":{"functionResponses":[...]}}\<close> to the connection.
\<close>

theorem sendToolResponse_missing_id:
  assumes "list_all well_formed_response frs"
    and "\<exists>fr \<in> set frs. \<not> has_property ''id'' fr"
    and "obj_get params ''functionResponses'' = JArr frs"
    and "\<not> isVertexAI (apiClient direct)"
    and "isVertexAI (apiClient vertex)"
  shows "sendToolResponse direct params = (Inl (Error FUNCTION_RESPONSE_REQUIRES_ID), direct)
       \<and> sendToolResponse vertex params =
           (Inr (), vertex\<lparr>conn := ws_send (conn vertex)
                       (stringify_object [(''toolResponse'', JObj [(''functionResponses'', JArr frs)])])\<rparr>)"
proof -
  from assms(2) have "frs \<noteq> []" by auto
  with assms(1,3,5) have "sendToolResponse vertex params =
           (Inr (), vertex\<lparr>conn := ws_send (conn vertex)
                       (stringify_object [(''toolResponse'', JObj [(''functionResponses'', JArr frs)])])\<rparr>)"
    by (simp add: sendToolResponse_def tLiveClienttToolResponse_def check_function_responses_vertex)
  moreover from \<open>frs \<noteq> []\<close> assms(1,2,3,4)
  have "sendToolResponse direct params = (Inl (Error FUNCTION_RESPONSE_REQUIRES_ID), direct)"
    by (simp add: sendToolResponse_def tLiveClienttToolResponse_def check_function_responses_direct)
  ultimately show ?thesis by simp
qed

theorem sendToolResponse_missing_id_witness:
  \<open>list_all well_formed_response
     [JObj [(''id'', JStr ''call-1''), (''name'', JStr ''f''), (''response'', JObj [])],
      JObj [(''name'', JStr ''g''), (''response'', JObj [])]]
   \<and> \<not> has_property ''id'' (JObj [(''name'', JStr ''g''), (''response'', JObj [])])
   \<and> \<not> isVertexAI (apiClient direct_session) \<and> isVertexAI (apiClient vertex_session)
   \<and> sendToolResponse direct_session
        [(''functionResponses'',
          JArr [JObj [(''id'', JStr ''call-1''), (''name'', JStr ''f''), (''response'', JObj [])],
                JObj [(''name'', JStr ''g''), (''response'', JObj [])]])]
      = (Inl (Error FUNCTION_RESPONSE_REQUIRES_ID), direct_session)
   \<and> sent_frames (events (conn (snd (sendToolResponse vertex_session
        [(''functionResponses'',
          JArr [JObj [(''id'', JStr ''call-1''), (''name'', JStr ''f''), (''response'', JObj [])],
                JObj [(''name'', JStr ''g''), (''response'', JObj [])]])]))))
      = [''{}'',
         ''{"toolResponse":{"functionResponses":[{"id":"call-1","name":"f","response":{}},{"name":"g","response":{}}]}}'']\<close>
  using sendToolResponse_missing_id
    [of "[JObj [(''id'', JStr ''call-1''), (''name'', JStr ''f''), (''response'', JObj [])],
          JObj [(''name'', JStr ''g''), (''response'', JObj [])]]"
        "[(''functionResponses'',
          JArr [JObj [(''id'', JStr ''call-1''), (''name'', JStr ''f''), (''response'', JObj [])],
                JObj [(''name'', JStr ''g''), (''response'', JObj [])]])]"
        direct_session vertex_session]
  by (simp add: well_formed_response_def direct_session_def vertex_session_def direct_client_def
      vertex_client_def open_socket_def ws_send_def stringify_object_def json_quote_def json_escape_def)

text \<open>
  C1, as the claim states it, fails: an entry without \<^verbatim>\<open>id\<close> that also has no \<^verbatim>\<open>name\<close>
  is refused by the earlier check of the loop, with the could-not-parse message, on the
  direct API and on Vertex alike.
\<close>

theorem sendToolResponse_missing_id_counterexample:
  \<open>\<not> has_property ''id'' (JObj [(''response'', JObj [])])
   \<and> sendToolResponse direct_session [(''functionResponses'', JArr [JObj [(''response'', JObj [])]])]
      = (Inl (Error ''Could not parse function response, type 'object'.''), direct_session)
   \<and> Error ''Could not parse function response, type 'object'.'' \<noteq> Error FUNCTION_RESPONSE_REQUIRES_ID
   \<and> sendToolResponse vertex_session [(''functionResponses'', JArr [JObj [(''response'', JObj [])]])]
      = (Inl (Error ''Could not parse function response, type 'object'.''), vertex_session)\<close>
  by (simp add: sendToolResponse_def tLiveClienttToolResponse_def direct_session_def vertex_session_def
      direct_client_def vertex_client_def FUNCTION_RESPONSE_REQUIRES_ID_def)

text \<open>
  C2. \<^verbatim>\<open>sendToolResponse\<close> with \<^verbatim>\<open>functionResponses\<close> absent, \<^verbatim>\<open>undefined\<close> or
  \<^verbatim>\<open>null\<close> throws \<^verbatim>\<open>Tool response parameters are required.\<close>, and with an empty array
  it throws \<^verbatim>\<open>functionResponses is required.\<close>; on either backend the session, and so
  the connection and what was sent on it, is as before the call.
\<close>

theorem sendToolResponse_empty:
  "(nullish (obj_get params ''functionResponses'') \<longrightarrow>
      sendToolResponse s params = (Inl (Error ''Tool response parameters are required.''), s))
 \<and> (obj_get params ''functionResponses'' = JArr [] \<longrightarrow>
      sendToolResponse s params = (Inl (Error ''functionResponses is required.''), s))"
  by (simp add: sendToolResponse_def tLiveClienttToolResponse_def)

theorem sendToolResponse_empty_witness:
  "nullish (obj_get [] ''functionResponses'')
   \<and> nullish (obj_get [(''functionResponses'', JNull)] ''functionResponses'')
   \<and> sendToolResponse direct_session [] =
       (Inl (Error ''Tool response parameters are required.''), direct_session)
   \<and> sendToolResponse vertex_session [(''functionResponses'', JNull)] =
       (Inl (Error ''Tool response parameters are required.''), vertex_session)
   \<and> sendToolResponse direct_session [(''functionResponses'', JArr [])] =
       (Inl (Error ''functionResponses is required.''), direct_session)
   \<and> sendToolResponse vertex_session [(''functionResponses'', JArr [])] =
       (Inl (Error ''functionResponses is required.''), vertex_session)"
  using sendToolResponse_empty [of "[]" direct_session]
    sendToolResponse_empty [of "[(''functionResponses'', JNull)]" vertex_session]
    sendToolResponse_empty [of "[(''functionResponses'', JArr [])]" direct_session]
    sendToolResponse_empty [of "[(''functionResponses'', JArr [])]" vertex_session]
  by simp

text \<open>
  C6. \<^verbatim>\<open>sendClientContent()\<close> hands the connection exactly
  \<^verbatim>\<open>{"clientContent":{"turnComplete":true}}\<close>, and
  \<^verbatim>\<open>sendClientContent({turnComplete: false})\<close> exactly
  \<^verbatim>\<open>{"clientContent":{"turnComplete":false}}\<close>, a frame with no \<^verbatim>\<open>turns\<close> key, whatever
  the backend and the converters.
\<close>

theorem sendClientContent_default:
  \<open>sendClientContent env s None =
     (Inr (), s\<lparr>conn := ws_send (conn s) ''{"clientContent":{"turnComplete":true}}''\<rparr>)
   \<and> sendClientContent env s (Some [(''turnComplete'', JBool False)]) =
     (Inr (), s\<lparr>conn := ws_send (conn s) ''{"clientContent":{"turnComplete":false}}''\<rparr>)\<close>
  by (simp add: sendClientContent_def tLiveClientContent_def defaultLiveSendClientContentParamerters_def
      stringify_object_def json_quote_def json_escape_def)

section \<open>Properties of the handshake\<close>

lemma obj_get_set_same: "obj_get (obj_set c k v) k = v"
  by (induction c) auto

lemma obj_get_set_other: "k' \<noteq> k \<Longrightarrow> obj_get (obj_set c k' v) k = obj_get c k"
  by (induction c) auto

lemma default_modalities_fields:
  "model (default_modalities api params) = model params"
  "callbacks (default_modalities api params) = callbacks params"
  by (auto simp: default_modalities_def split: option.splits)

lemma default_modalities_other:
  "k \<noteq> ''responseModalities'' \<Longrightarrow> config_get (default_modalities api params) k = config_get params k"
  by (auto simp: default_modalities_def config_get_def obj_get_set_other split: option.splits)

lemma default_modalities_vertex:
  "isVertexAI api \<Longrightarrow> config_get params ''responseModalities'' = JUndefined
   \<Longrightarrow> config_get (default_modalities api params) ''responseModalities'' = JArr [Modality_AUDIO]"
  by (auto simp: default_modalities_def config_get_def obj_get_set_same split: option.splits)

lemma default_modalities_direct: "\<not> isVertexAI api \<Longrightarrow> default_modalities api params = params"
  by (simp add: default_modalities_def)

lemma assign_tools_fields:
  assumes "assign_tools params tools = Inr params2"
  shows "model params2 = model params" "callbacks params2 = callbacks params"
    "k \<noteq> ''tools'' \<Longrightarrow> config_get params2 k = config_get params k"
    "tools \<noteq> [] \<Longrightarrow> config_get params2 ''tools'' = JArr tools"
    "tools = [] \<Longrightarrow> params2 = params"
  using assms
  by (auto simp: assign_tools_def config_get_def obj_get_set_other obj_get_set_same
      split: if_splits option.splits)

lemma inputTools_default_modalities: "inputTools (default_modalities api params) = inputTools params"
  by (simp add: inputTools_def default_modalities_other)

lemma convert_tools_length: "convert_tools env ts = Inr cts \<Longrightarrow> length cts = length ts"
  by (induction ts arbitrary: cts) (auto split: sum.splits if_splits)

lemma convertedTools_array:
  "config_get params ''tools'' = JArr ts \<Longrightarrow> convertedTools env params = convert_tools env ts"
  by (simp add: convertedTools_def inputTools_def)

lemma connect_opened_fulfilled:
  assumes "result (connect_opened env api params ws warned called) = Fulfilled s"
  shows "\<exists>tm tools params2 msg.
       tModel env api (model params) = Inr tm
     \<and> convertedTools env (default_modalities api params) = Inr tools
     \<and> assign_tools (default_modalities api params) tools = Inr params2
     \<and> setup_message env api
          \<lparr>model = qualify_model api tm, config = config params2, callbacks = callbacks params2\<rparr> = Inr msg
     \<and> params_after (connect_opened env api params ws warned called) = params2
     \<and> socket (connect_opened env api params ws warned called) = Some (conn s)
     \<and> s = \<lparr>conn = ws_send ws (stringify_object (obj_delete msg ''config'')), apiClient = api\<rparr>"
  using assms
  by (auto simp: connect_opened_def Let_def split: sum.splits)

lemma connect_fulfilled:
  assumes "result (connect env api params) = Fulfilled s"
  shows "\<exists>hs. authorize env api (connect_headers env api params) = Inr hs \<and> transportOpens env
     \<and> connect env api params =
         connect_opened env api params
           (ws_opened (ws_connect \<lparr>url = connect_url api, headers = headersToMap hs, events = []\<rparr>))
           (ephemeral_warning api) (onopen_calls params)"
  using assms
  by (auto simp: connect_def Let_def split: sum.splits if_splits)

lemma connect_success:
  assumes "result (connect env api params) = Fulfilled s"
  shows "\<exists>hs tm tools params2 msg.
       tModel env api (model params) = Inr tm
     \<and> convertedTools env (default_modalities api params) = Inr tools
     \<and> assign_tools (default_modalities api params) tools = Inr params2
     \<and> setup_message env api
          \<lparr>model = qualify_model api tm, config = config params2, callbacks = callbacks params\<rparr> = Inr msg
     \<and> params_after (connect env api params) = params2
     \<and> socket (connect env api params) = Some (conn s)
     \<and> conn s = \<lparr>url = connect_url api, headers = headersToMap hs,
                  events = [Connect, Opened, Send (stringify_object (obj_delete msg ''config''))]\<rparr>
     \<and> apiClient s = api"
proof -
  from connect_fulfilled[OF assms] obtain hs where
    c: "connect env api params =
         connect_opened env api params
           (ws_opened (ws_connect \<lparr>url = connect_url api, headers = headersToMap hs, events = []\<rparr>))
           (ephemeral_warning api) (onopen_calls params)"
    by blast
  let ?ws = "ws_opened (ws_connect \<lparr>url = connect_url api, headers = headersToMap hs, events = []\<rparr>)"
  from assms c have r: "result (connect_opened env api params ?ws (ephemeral_warning api)
                           (onopen_calls params)) = Fulfilled s"
    by simp
  from connect_opened_fulfilled[OF r] obtain tm tools params2 msg where
    h: "tModel env api (model params) = Inr tm"
       "convertedTools env (default_modalities api params) = Inr tools"
       "assign_tools (default_modalities api params) tools = Inr params2"
       "setup_message env api
          \<lparr>model = qualify_model api tm, config = config params2, callbacks = callbacks params2\<rparr> = Inr msg"
       "params_after (connect_opened env api params ?ws (ephemeral_warning api) (onopen_calls params)) = params2"
       "socket (connect_opened env api params ?ws (ephemeral_warning api) (onopen_calls params)) = Some (conn s)"
       "s = \<lparr>conn = ws_send ?ws (stringify_object (obj_delete msg ''config'')), apiClient = api\<rparr>"
    by blast
  from h(3) have cb: "callbacks params2 = callbacks params"
    by (simp add: assign_tools_fields(2) default_modalities_fields(2))
  have ev: "ws_send ?ws (stringify_object (obj_delete msg ''config'')) =
      \<lparr>url = connect_url api, headers = headersToMap hs,
       events = [Connect, Opened, Send (stringify_object (obj_delete msg ''config''))]\<rparr>"
    by (simp add: ws_send_def ws_opened_def ws_connect_def)
  from h(7) ev have s: "conn s = \<lparr>url = connect_url api, headers = headersToMap hs,
       events = [Connect, Opened, Send (stringify_object (obj_delete msg ''config''))]\<rparr>"
      "apiClient s = api"
    by simp_all
  from h(1,2,3) h(4)[unfolded cb] h(5,6)[folded c] s show ?thesis
    by blast
qed

lemma connect_socket_url:
  "socket (connect env api params) = Some ws \<Longrightarrow> url ws = connect_url api"
  by (auto simp: connect_def connect_opened_def Let_def ws_send_def ws_opened_def ws_connect_def
      split: sum.splits if_splits)

lemma connect_socket_direct:
  "\<not> isVertexAI api \<Longrightarrow> \<exists>ws. socket (connect env api params) = Some ws"
  by (auto simp: connect_def connect_opened_def authorize_def Let_def split: sum.splits if_splits)

lemma connect_params_fields:
  "model (params_after (connect env api params)) = model params
   \<and> callbacks (params_after (connect env api params)) = callbacks params"
  by (auto simp: connect_def connect_opened_def Let_def assign_tools_fields default_modalities_fields
      split: sum.splits if_splits)


lemmas example_defs =
  example_env_def example_params_def example_params_tools_def example_callbacks_def
  vertex_client_def direct_client_def ephemeral_client_def keyless_client_def

lemmas connect_defs =
  connect_def connect_opened_def authorize_def connect_headers_def connect_url_def
  ephemeral_warning_def ephemeral_token_def onopen_calls_def qualify_model_def template_def
  default_modalities_def generationConfig_warning_def convertedTools_def inputTools_def
  assign_tools_def setup_message_def config_get_def mapToHeaders_def headersToMap_def
  ws_connect_def ws_opened_def ws_send_def startsWith_def Modality_AUDIO_def
  stringify_object_def json_quote_def json_escape_def

lemma connect_vertex_example:
  "result (connect example_env vertex_client example_params) = Fulfilled vertex_connected"
  by (simp add: connect_defs example_defs vertex_connected_def)

lemma connect_direct_example:
  "result (connect example_env direct_client example_params) = Fulfilled direct_connected"
  by (simp add: connect_defs example_defs direct_connected_def)

lemma connect_vertex_tools_example:
  "result (connect example_env vertex_client example_params_tools) = Fulfilled vertex_connected_tools"
  by (simp add: connect_defs example_defs vertex_connected_tools_def)

text \<open>
  C3. When \<^verbatim>\<open>connect\<close> returns a session, on either backend, the connection of that
  session has seen exactly: the call of \<^verbatim>\<open>connect\<close>, the open signal, and one
  \<^verbatim>\<open>send\<close>, whose frame is the text of the backend's setup message for the transformed
  and qualified model and the resolved config (the \<^verbatim>\<open>config\<close> of \<^verbatim>\<open>params\<close> as the
  call left it), with the top-level key \<^verbatim>\<open>config\<close> deleted. So the setup frame is the first
  frame sent after open, and it has been sent when the caller gets the session.
\<close>

theorem connect_setup_first:
  assumes "result (connect env api params) = Fulfilled s"
  shows "\<exists>tm msg. tModel env api (model params) = Inr tm
     \<and> setup_message env api
          \<lparr>model = qualify_model api tm, config = config (params_after (connect env api params)),
           callbacks = callbacks params\<rparr> = Inr msg
     \<and> events (conn s) = [Connect, Opened, Send (stringify_object (obj_delete msg ''config''))]
     \<and> socket (connect env api params) = Some (conn s)"
  using connect_success[OF assms] by force

theorem connect_setup_first_witness:
  \<open>result (connect example_env vertex_client example_params) = Fulfilled vertex_connected
   \<and> events (conn vertex_connected) =
       [Connect, Opened,
        Send ''{"setup":{"model":"projects/p/locations/l/publishers/google/models/gemini-live","responseModalities":["AUDIO"]}}'']
   \<and> (\<exists>tm msg. tModel example_env vertex_client (model example_params) = Inr tm
     \<and> setup_message example_env vertex_client
          \<lparr>model = qualify_model vertex_client tm,
           config = config (params_after (connect example_env vertex_client example_params)),
           callbacks = callbacks example_params\<rparr> = Inr msg
     \<and> events (conn vertex_connected) = [Connect, Opened, Send (stringify_object (obj_delete msg ''config''))]
     \<and> socket (connect example_env vertex_client example_params) = Some (conn vertex_connected))
   \<and> result (connect example_env direct_client example_params) = Fulfilled direct_connected
   \<and> events (conn direct_connected) =
       [Connect, Opened, Send ''{"setup":{"model":"models/gemini-live"}}'']
   \<and> (\<exists>tm msg. tModel example_env direct_client (model example_params) = Inr tm
     \<and> setup_message example_env direct_client
          \<lparr>model = qualify_model direct_client tm,
           config = config (params_after (connect example_env direct_client example_params)),
           callbacks = callbacks example_params\<rparr> = Inr msg
     \<and> events (conn direct_connected) = [Connect, Opened, Send (stringify_object (obj_delete msg ''config''))]
     \<and> socket (connect example_env direct_client example_params) = Some (conn direct_connected))\<close>
proof -
  have \<open>events (conn vertex_connected) =
       [Connect, Opened,
        Send ''{"setup":{"model":"projects/p/locations/l/publishers/google/models/gemini-live","responseModalities":["AUDIO"]}}'']\<close>
    and \<open>events (conn direct_connected) =
       [Connect, Opened, Send ''{"setup":{"model":"models/gemini-live"}}'']\<close>
    by (simp_all add: vertex_connected_def direct_connected_def)
  with connect_setup_first [OF connect_vertex_example] connect_setup_first [OF connect_direct_example]
    connect_vertex_example connect_direct_example
  show ?thesis by blast
qed

text \<open>
  C4. On the direct API the connection is made with the URL
  \<^verbatim>\<open>{base}/ws/google.ai.generativelanguage.{version}.GenerativeService.{method}?{keyParam}={key}\<close>,
  where method and key parameter are \<^verbatim>\<open>BidiGenerateContentConstrained\<close> and
  \<^verbatim>\<open>access_token\<close> when the key starts with \<^verbatim>\<open>auth_tokens/\<close>, and
  \<^verbatim>\<open>BidiGenerateContent\<close> and \<^verbatim>\<open>key\<close> for any other (non-empty) key; with no key (or
  an empty one) the URL is the websocket base URL alone.
\<close>

theorem connect_direct_url:
  assumes "\<not> isVertexAI api"
  shows "\<exists>ws. socket (connect env api params) = Some ws \<and>
     url ws =
       (case getApiKey api of
          None \<Rightarrow> getWebsocketBaseUrl api
        | Some k \<Rightarrow>
            if k = [] then getWebsocketBaseUrl api
            else if startsWith k ''auth_tokens/''
            then getWebsocketBaseUrl api @ ''/ws/google.ai.generativelanguage.'' @ getApiVersion api
                   @ ''.GenerativeService.BidiGenerateContentConstrained?access_token='' @ k
            else getWebsocketBaseUrl api @ ''/ws/google.ai.generativelanguage.'' @ getApiVersion api
                   @ ''.GenerativeService.BidiGenerateContent?key='' @ k)"
proof -
  from connect_socket_direct[OF assms] obtain ws where ws: "socket (connect env api params) = Some ws"
    by blast
  from connect_socket_url[OF ws] assms have "url ws =
       (case getApiKey api of
          None \<Rightarrow> getWebsocketBaseUrl api
        | Some k \<Rightarrow>
            if k = [] then getWebsocketBaseUrl api
            else if startsWith k ''auth_tokens/''
            then getWebsocketBaseUrl api @ ''/ws/google.ai.generativelanguage.'' @ getApiVersion api
                   @ ''.GenerativeService.BidiGenerateContentConstrained?access_token='' @ k
            else getWebsocketBaseUrl api @ ''/ws/google.ai.generativelanguage.'' @ getApiVersion api
                   @ ''.GenerativeService.BidiGenerateContent?key='' @ k)"
    by (simp add: connect_url_def Let_def split: option.splits)
  with ws show ?thesis by blast
qed

theorem connect_direct_url_witness:
  "\<not> isVertexAI direct_client \<and> \<not> isVertexAI ephemeral_client \<and> \<not> isVertexAI keyless_client
   \<and> (\<exists>ws. socket (connect example_env direct_client example_params) = Some ws \<and>
         url ws = ''wss://generativelanguage.googleapis.com/ws/google.ai.generativelanguage.v1beta.GenerativeService.BidiGenerateContent?key=secret'')
   \<and> (\<exists>ws. socket (connect example_env ephemeral_client example_params) = Some ws \<and>
         url ws = ''wss://generativelanguage.googleapis.com/ws/google.ai.generativelanguage.v1beta.GenerativeService.BidiGenerateContentConstrained?access_token=auth_tokens/abc'')
   \<and> (\<exists>ws. socket (connect example_env keyless_client example_params) = Some ws \<and>
         url ws = ''wss://generativelanguage.googleapis.com'')"
  using connect_direct_url [of direct_client example_env example_params]
    connect_direct_url [of ephemeral_client example_env example_params]
    connect_direct_url [of keyless_client example_env example_params]
  by (simp add: direct_client_def ephemeral_client_def keyless_client_def startsWith_def)

text \<open>
  C5. On Vertex, when the model transform gives a name \<open>m\<close> that starts with
  \<^verbatim>\<open>publishers/\<close> and the client has project \<open>p\<close> and location \<open>l\<close>, the setup frame of
  a successful \<^verbatim>\<open>connect\<close> is the Vertex converter's message for the model
  \<^verbatim>\<open>projects/p/locations/l/\<close> followed by \<open>m\<close>.
\<close>

theorem connect_vertex_publishers_model:
  assumes "isVertexAI api"
    and "tModel env api (model params) = Inr m"
    and "startsWith m ''publishers/''"
    and "getProject api = Some p"
    and "getLocation api = Some l"
    and "result (connect env api params) = Fulfilled s"
  shows "\<exists>msg. liveConnectParametersToVertex env api
            \<lparr>model = ''projects/'' @ p @ ''/locations/'' @ l @ ''/'' @ m,
             config = config (params_after (connect env api params)),
             callbacks = callbacks params\<rparr> = Inr msg
       \<and> sent_frames (events (conn s)) = [stringify_object (obj_delete msg ''config'')]"
proof -
  from connect_success[OF assms(6)] assms(2) obtain msg where
    m: "setup_message env api
          \<lparr>model = qualify_model api m, config = config (params_after (connect env api params)),
           callbacks = callbacks params\<rparr> = Inr msg"
    and e: "events (conn s) = [Connect, Opened, Send (stringify_object (obj_delete msg ''config''))]"
    by force
  from assms(1,3,4,5) have q: "qualify_model api m = ''projects/'' @ p @ ''/locations/'' @ l @ ''/'' @ m"
    by (simp add: qualify_model_def template_def)
  from m q assms(1) e show ?thesis
    by (simp add: setup_message_def)
qed

theorem connect_vertex_publishers_model_witness:
  \<open>isVertexAI vertex_client
   \<and> tModel example_env vertex_client (model example_params) = Inr ''publishers/google/models/gemini-live''
   \<and> startsWith ''publishers/google/models/gemini-live'' ''publishers/''
   \<and> getProject vertex_client = Some ''p'' \<and> getLocation vertex_client = Some ''l''
   \<and> result (connect example_env vertex_client example_params) = Fulfilled vertex_connected
   \<and> (\<exists>msg. liveConnectParametersToVertex example_env vertex_client
            \<lparr>model = ''projects/p/locations/l/publishers/google/models/gemini-live'',
             config = config (params_after (connect example_env vertex_client example_params)),
             callbacks = callbacks example_params\<rparr> = Inr msg
       \<and> sent_frames (events (conn vertex_connected)) = [stringify_object (obj_delete msg ''config'')])
   \<and> sent_frames (events (conn vertex_connected)) =
       [''{"setup":{"model":"projects/p/locations/l/publishers/google/models/gemini-live","responseModalities":["AUDIO"]}}'']\<close>
proof -
  have 1: "isVertexAI vertex_client" by (simp add: vertex_client_def)
  have 2: "tModel example_env vertex_client (model example_params) = Inr ''publishers/google/models/gemini-live''"
    by (simp add: example_env_def example_params_def vertex_client_def)
  have 3: "startsWith ''publishers/google/models/gemini-live'' ''publishers/''"
    by (simp add: startsWith_def)
  have 4: "getProject vertex_client = Some ''p''" "getLocation vertex_client = Some ''l''"
    by (simp_all add: vertex_client_def)
  from connect_vertex_publishers_model [OF 1 2 3 4 connect_vertex_example] 1 2 3 4 connect_vertex_example
  show ?thesis
    by (simp add: vertex_connected_def)
qed

text \<open>
  C7. When the caller's config gives no \<^verbatim>\<open>responseModalities\<close> (no config, or the field
  absent or \<^verbatim>\<open>undefined\<close>), the config that a successful \<^verbatim>\<open>connect\<close> hands to the
  converter of the setup frame has \<^verbatim>\<open>responseModalities\<close> equal to \<^verbatim>\<open>[AUDIO]\<close> on Vertex,
  and still has none on the direct API.
\<close>

theorem connect_default_modality:
  assumes "result (connect env api params) = Fulfilled s"
    and "config_get params ''responseModalities'' = JUndefined"
  shows "\<exists>tm msg. setup_message env api
            \<lparr>model = tm, config = config (params_after (connect env api params)),
             callbacks = callbacks params\<rparr> = Inr msg
       \<and> sent_frames (events (conn s)) = [stringify_object (obj_delete msg ''config'')]
       \<and> config_get (params_after (connect env api params)) ''responseModalities'' =
           (if isVertexAI api then JArr [Modality_AUDIO] else JUndefined)"
proof -
  from connect_success[OF assms(1)] obtain tm tools params2 msg where
    h: "assign_tools (default_modalities api params) tools = Inr params2"
       "setup_message env api
          \<lparr>model = qualify_model api tm, config = config params2, callbacks = callbacks params\<rparr> = Inr msg"
       "params_after (connect env api params) = params2"
       "events (conn s) = [Connect, Opened, Send (stringify_object (obj_delete msg ''config''))]"
    by force
  from h(1) have "config_get params2 ''responseModalities'' =
      config_get (default_modalities api params) ''responseModalities''"
    by (simp add: assign_tools_fields(3))
  with assms(2) have "config_get params2 ''responseModalities'' =
      (if isVertexAI api then JArr [Modality_AUDIO] else JUndefined)"
    by (simp add: default_modalities_vertex default_modalities_direct)
  with h show ?thesis by force
qed

theorem connect_default_modality_witness:
  \<open>result (connect example_env vertex_client example_params) = Fulfilled vertex_connected
   \<and> result (connect example_env direct_client example_params) = Fulfilled direct_connected
   \<and> config_get example_params ''responseModalities'' = JUndefined
   \<and> config_get (params_after (connect example_env vertex_client example_params)) ''responseModalities''
       = JArr [JStr ''AUDIO'']
   \<and> config_get (params_after (connect example_env direct_client example_params)) ''responseModalities''
       = JUndefined
   \<and> sent_frames (events (conn vertex_connected)) =
       [''{"setup":{"model":"projects/p/locations/l/publishers/google/models/gemini-live","responseModalities":["AUDIO"]}}'']
   \<and> sent_frames (events (conn direct_connected)) = [''{"setup":{"model":"models/gemini-live"}}'']\<close>
proof -
  have u: "config_get example_params ''responseModalities'' = JUndefined"
    by (simp add: config_get_def example_params_def)
  have v: "isVertexAI vertex_client" and d: "\<not> isVertexAI direct_client"
    by (simp_all add: vertex_client_def direct_client_def)
  from connect_default_modality [OF connect_vertex_example u] v
  have 1: "config_get (params_after (connect example_env vertex_client example_params)) ''responseModalities''
       = JArr [JStr ''AUDIO'']"
    by (auto simp: Modality_AUDIO_def)
  from connect_default_modality [OF connect_direct_example u] d
  have 2: "config_get (params_after (connect example_env direct_client example_params)) ''responseModalities''
       = JUndefined"
    by auto
  have 3: \<open>sent_frames (events (conn vertex_connected)) =
       [''{"setup":{"model":"projects/p/locations/l/publishers/google/models/gemini-live","responseModalities":["AUDIO"]}}'']\<close>
    \<open>sent_frames (events (conn direct_connected)) = [''{"setup":{"model":"models/gemini-live"}}'']\<close>
    by (simp_all add: vertex_connected_def direct_connected_def)
  from connect_vertex_example connect_direct_example u 1 2 3 show ?thesis
    by blast
qed

text \<open>
  C10. \<^verbatim>\<open>connect\<close> changes the caller's \<^verbatim>\<open>params\<close>: \<^verbatim>\<open>model\<close> and \<^verbatim>\<open>callbacks\<close> are
  never changed; after a call that returns a session, on Vertex a config without
  \<^verbatim>\<open>responseModalities\<close> has got \<^verbatim>\<open>responseModalities = [AUDIO]\<close> (an absent config
  has become the object with just that field), and a config with a non-empty \<^verbatim>\<open>tools\<close>
  array has got the resolved tools in its place.
\<close>

theorem connect_mutates_params:
  "model (params_after (connect env api params)) = model params
   \<and> callbacks (params_after (connect env api params)) = callbacks params
   \<and> (result (connect env api params) = Fulfilled s \<longrightarrow> isVertexAI api
        \<longrightarrow> config_get params ''responseModalities'' = JUndefined
        \<longrightarrow> config_get (params_after (connect env api params)) ''responseModalities'' = JArr [Modality_AUDIO])
   \<and> (result (connect env api params) = Fulfilled s \<longrightarrow> isVertexAI api \<longrightarrow> config params = None
        \<longrightarrow> config (params_after (connect env api params))
              = Some [(''responseModalities'', JArr [Modality_AUDIO])])
   \<and> (result (connect env api params) = Fulfilled s \<longrightarrow> config_get params ''tools'' = JArr ts \<longrightarrow> ts \<noteq> []
        \<longrightarrow> (\<exists>tools. convert_tools env ts = Inr tools
              \<and> config_get (params_after (connect env api params)) ''tools'' = JArr tools))"
proof -
  have n: "config (params_after (connect env api params))
              = Some [(''responseModalities'', JArr [Modality_AUDIO])]"
    if f: "result (connect env api params) = Fulfilled s" and v: "isVertexAI api"
      and u: "config params = None"
  proof -
    from connect_success[OF f] obtain tools params2 where
      h: "convertedTools env (default_modalities api params) = Inr tools"
         "assign_tools (default_modalities api params) tools = Inr params2"
         "params_after (connect env api params) = params2"
      by force
    from v u have d: "default_modalities api params =
        params\<lparr>config := Some [(''responseModalities'', JArr [Modality_AUDIO])]\<rparr>"
      by (simp add: default_modalities_def config_get_def)
    from h(1) have "tools = []"
      by (simp add: d convertedTools_def inputTools_def config_get_def)
    with h(2) have "params2 = default_modalities api params"
      by (simp add: assign_tools_fields(5))
    with h(3) d show ?thesis by simp
  qed
  have a: "config_get (params_after (connect env api params)) ''responseModalities'' = JArr [Modality_AUDIO]"
    if f: "result (connect env api params) = Fulfilled s" and v: "isVertexAI api"
      and u: "config_get params ''responseModalities'' = JUndefined"
  proof -
    from connect_success[OF f] obtain tools params2 where
      h: "assign_tools (default_modalities api params) tools = Inr params2"
         "params_after (connect env api params) = params2"
      by force
    from h(1) have "config_get params2 ''responseModalities'' =
        config_get (default_modalities api params) ''responseModalities''"
      by (simp add: assign_tools_fields(3))
    with v u h(2) show ?thesis by (simp add: default_modalities_vertex)
  qed
  have b: "\<exists>tools. convert_tools env ts = Inr tools
              \<and> config_get (params_after (connect env api params)) ''tools'' = JArr tools"
    if f: "result (connect env api params) = Fulfilled s" and t: "config_get params ''tools'' = JArr ts"
      and ne: "ts \<noteq> []"
  proof -
    from connect_success[OF f] obtain tools params2 where
      h: "convertedTools env (default_modalities api params) = Inr tools"
         "assign_tools (default_modalities api params) tools = Inr params2"
         "params_after (connect env api params) = params2"
      by force
    from t have "config_get (default_modalities api params) ''tools'' = JArr ts"
      by (simp add: default_modalities_other)
    with h(1) have c: "convert_tools env ts = Inr tools"
      by (simp add: convertedTools_array)
    with ne convert_tools_length[OF c] have "tools \<noteq> []" by auto
    with h(2) have "config_get params2 ''tools'' = JArr tools"
      by (simp add: assign_tools_fields(4))
    with c h(3) show ?thesis by simp
  qed
  from a n b connect_params_fields[of env api params] show ?thesis by blast
qed

theorem connect_mutates_params_witness:
  "result (connect example_env vertex_client example_params_tools) = Fulfilled vertex_connected_tools
   \<and> isVertexAI vertex_client
   \<and> config_get example_params_tools ''responseModalities'' = JUndefined
   \<and> config_get example_params_tools ''tools'' =
       JArr [JObj [(''callTool'', JFun ''callTool'')], JObj [(''googleSearch'', JObj [])]]
   \<and> model (params_after (connect example_env vertex_client example_params_tools)) = ''gemini-live''
   \<and> callbacks (params_after (connect example_env vertex_client example_params_tools)) = Some example_callbacks
   \<and> config_get (params_after (connect example_env vertex_client example_params_tools)) ''responseModalities''
       = JArr [JStr ''AUDIO'']
   \<and> config_get (params_after (connect example_env vertex_client example_params_tools)) ''tools''
       = JArr [JObj [(''functionDeclarations'', JArr [])], JObj [(''googleSearch'', JObj [])]]
   \<and> result (connect example_env vertex_client example_params) = Fulfilled vertex_connected
   \<and> config example_params = None
   \<and> config (params_after (connect example_env vertex_client example_params))
       = Some [(''responseModalities'', JArr [JStr ''AUDIO''])]"
proof -
  have e: "config example_params = None"
    by (simp add: example_params_def)
  from connect_mutates_params [of example_env vertex_client example_params vertex_connected]
    connect_vertex_example e
  have created: "config (params_after (connect example_env vertex_client example_params))
       = Some [(''responseModalities'', JArr [JStr ''AUDIO''])]"
    by (simp add: vertex_client_def Modality_AUDIO_def)
  have v: "isVertexAI vertex_client"
    by (simp add: vertex_client_def)
  have u: "config_get example_params_tools ''responseModalities'' = JUndefined"
    and t: "config_get example_params_tools ''tools'' =
       JArr [JObj [(''callTool'', JFun ''callTool'')], JObj [(''googleSearch'', JObj [])]]"
    and m: "model example_params_tools = ''gemini-live''"
           "callbacks example_params_tools = Some example_callbacks"
    by (simp_all add: config_get_def example_params_tools_def)
  have c: "convert_tools example_env [JObj [(''callTool'', JFun ''callTool'')], JObj [(''googleSearch'', JObj [])]]
      = Inr [JObj [(''functionDeclarations'', JArr [])], JObj [(''googleSearch'', JObj [])]]"
    by (simp add: example_env_def)
  from connect_mutates_params
    [of example_env vertex_client example_params_tools vertex_connected_tools
        "[JObj [(''callTool'', JFun ''callTool'')], JObj [(''googleSearch'', JObj [])]]"]
    connect_vertex_tools_example v u t m c connect_vertex_example e created
  show ?thesis
    by (simp add: Modality_AUDIO_def)
qed

section \<open>Properties of the inbound dispatch\<close>

lemma foldl_step_without_blob:
  "waiting st = [] \<Longrightarrow> list_all (\<lambda>p. \<not> is_blob p) (delivered jobs)
   \<Longrightarrow> received (foldl (step dec api) st jobs)
         = received st @ decoded dec api (map payload_text (delivered jobs))
       \<and> waiting (foldl (step dec api) st jobs) = []"
proof (induction jobs arbitrary: st)
  case Nil
  then show ?case by simp
next
  case (Cons t jobs)
  show ?case
  proof (cases t)
    case (Message p)
    with Cons.prems have nb: "\<not> is_blob p" and rest: "list_all (\<lambda>p. \<not> is_blob p) (delivered jobs)"
      by simp_all
    from nb Cons.prems(1) have w: "waiting (step dec api st t) = []"
      and r: "received (step dec api st t) = received st @ decoded dec api [payload_text p]"
      using Message by (cases p; simp add: dispatch_def split: sum.splits)+
    from Cons.IH[OF w rest] r Message show ?thesis
      by (simp split: sum.splits)
  next
    case (TextSettled i)
    with Cons.prems have "step dec api st t = st" by simp
    with Cons.IH[of st] Cons.prems TextSettled show ?thesis by simp
  qed
qed

text \<open>When no payload is a Blob, the handler is called in the order of delivery.\<close>

lemma inbound_in_order_without_blob:
  "list_all (\<lambda>p. \<not> is_blob p) (delivered jobs)
   \<Longrightarrow> received (run_jobs dec api jobs) = decoded dec api (map payload_text (delivered jobs))"
  using foldl_step_without_blob[of "\<lparr>waiting = [], received = [], failed = []\<rparr>" jobs dec api]
  by (simp add: run_jobs_def)

text \<open>
  C8, at the input where the code leaves the order of delivery. The transport delivers a
  Blob holding \<^verbatim>\<open>1\<close> and then the text \<^verbatim>\<open>2\<close>, and the \<^verbatim>\<open>text()\<close> promise of the Blob
  settles after the second delivery: the user's handler is called with the message of
  \<^verbatim>\<open>2\<close> first and with the message of \<^verbatim>\<open>1\<close> second.
\<close>

theorem inbound_blob_overtaken:
  "delivered [Message (Blob ''1''), Message (Text ''2''), TextSettled 0] = [Blob ''1'', Text ''2'']
   \<and> decoded example_decoders direct_client (map payload_text [Blob ''1'', Text ''2''])
       = [[(''serverContent'', JNum 1)], [(''serverContent'', JNum 2)]]
   \<and> received (run_jobs example_decoders direct_client
                 [Message (Blob ''1''), Message (Text ''2''), TextSettled 0])
       = [[(''serverContent'', JNum 2)], [(''serverContent'', JNum 1)]]"
  by (simp add: run_jobs_def dispatch_def decode_def example_decoders_def direct_client_def)

section \<open>Properties of the client constructor\<close>

text \<open>
  C9. When the options give a non-empty API key together with a non-empty project or
  location, the constructor throws \<^verbatim>\<open>Project/location and API key are mutually exclusive in
  the client initializer.\<close> and makes no client, whatever the environment.
\<close>

theorem constructor_mutually_exclusive:
  assumes "apiKey options = Some k" and "k \<noteq> []"
    and "(project options = Some p \<and> p \<noteq> []) \<or> (location options = Some l \<and> l \<noteq> [])"
  shows "GoogleGenAI_constructor getBaseUrl penv options =
           Inl (Error ''Project/location and API key are mutually exclusive in the client initializer.'')"
  using assms by (auto simp: GoogleGenAI_constructor_def is_set_def)

theorem constructor_mutually_exclusive_witness:
  "apiKey example_options = Some ''secret'' \<and> ''secret'' \<noteq> []
   \<and> project example_options = Some ''p'' \<and> ''p'' \<noteq> []
   \<and> GoogleGenAI_constructor (\<lambda>options v g. None) Map.empty example_options =
        Inl (Error ''Project/location and API key are mutually exclusive in the client initializer.'')"
  using constructor_mutually_exclusive
    [of example_options "''secret''" "''p''" "''l''" "\<lambda>options v g. None" Map.empty]
  by (simp add: example_options_def)

end
